theory Spec2Isabelle
  imports Main "HOL-Library.Sublist"
begin

section \<open>The handler package of go-api-basic\<close>

text \<open>
  A shallow embedding of \<^verbatim>\<open>handler/handler.go\<close>: the middleware
  \<^verbatim>\<open>JSONContentTypeHandler\<close> and \<^verbatim>\<open>AccessTokenHandler\<close>, the
  envelope constructor \<^verbatim>\<open>NewStandardResponse\<close> and the classifier
  \<^verbatim>\<open>DecoderErr\<close>. Go strings are byte sequences and are modelled as
  \<^typ>\<open>string\<close>; a Go \<^verbatim>\<open>error\<close> that may be nil is an \<^verbatim>\<open>option\<close>.
\<close>

subsection \<open>Errors\<close>

text \<open>
  Modelled from the spec: the kind taxonomy of package \<^verbatim>\<open>errs\<close> (the package is
  not among the sources). Section 3 of the specification lists the kinds
  unauthenticated, unauthorized, invalid-request, not-found, conflict and internal;
  sections 4.7 and 7 treat internal and unclassified as one row of the taxonomy
  ("Internal/unclassified: anything else"), which is also the kind of an error that is
  built without naming a kind ("kind left to the caller/default").
\<close>

datatype Kind = Internal | Unauthenticated | Unauthorized | InvalidRequest | NotFound | Conflict

text \<open>
  Go error values. \<^verbatim>\<open>io.EOF\<close> and \<^verbatim>\<open>io.ErrUnexpectedEOF\<close> are the two
  sentinel values of package \<^verbatim>\<open>io\<close>, compared by identity in the source;
  \<open>New s\<close> is a value made by \<^verbatim>\<open>errors.New(s)\<close> (never identical to a sentinel);
  \<open>Error k c\<close> is a classified error of package \<^verbatim>\<open>errs\<close>: its kind and the
  optional lower-level cause it wraps.
\<close>

datatype error = EOF | ErrUnexpectedEOF | New string | Error Kind "error option"

text \<open>The \<^verbatim>\<open>Error()\<close> method: the message of an error value. A classified error
  reports the message of its cause.\<close>

fun Error_msg :: "error \<Rightarrow> string" where
  "Error_msg EOF = ''EOF''"
| "Error_msg ErrUnexpectedEOF = ''unexpected EOF''"
| "Error_msg (New s) = s"
| "Error_msg (Error k None) = ''''"
| "Error_msg (Error k (Some e)) = Error_msg e"

text \<open>The arguments \<^verbatim>\<open>errs.E\<close> is called with in this package: a kind, or an
  error to wrap.\<close>

datatype arg = KindArg Kind | ErrArg error

text \<open>
  Modelled from the spec: \<^verbatim>\<open>errs.E(args...)\<close>, the constructor of classified
  errors (package \<^verbatim>\<open>errs\<close> is not among the sources). It starts from an error
  of the default kind with no cause, and each argument sets the field of its type: a
  kind argument sets the kind, an error argument becomes the wrapped cause.
\<close>

fun E_arg :: "arg \<Rightarrow> Kind \<times> error option \<Rightarrow> Kind \<times> error option" where
  "E_arg (KindArg k) (k0, c) = (k, c)"
| "E_arg (ErrArg e) (k0, c) = (k0, Some e)"

definition E :: "arg list \<Rightarrow> error" where
  "E args = (case fold E_arg args (Internal, None) of (k, c) \<Rightarrow> Error k c)"

subsection \<open>Requests, contexts and response writers\<close>

text \<open>A \<^verbatim>\<open>zerolog.Logger\<close>: disabled, or carrying the fields added to it so far.\<close>

datatype Logger = Disabled | Logger "(string \<times> string) list"

text \<open>An \<^verbatim>\<open>xid.ID\<close>, represented by its textual form: \<^verbatim>\<open>id.String()\<close> is
  an injective encoding of the identifier's bytes.\<close>

datatype ID = ID string

fun ID_String :: "ID \<Rightarrow> string" where
  "ID_String (ID s) = s"

text \<open>
  Modelled from the spec: \<^verbatim>\<open>auth.AccessToken\<close> and
  \<^verbatim>\<open>auth.BearerTokenType\<close> (package \<^verbatim>\<open>auth\<close> is not among the sources):
  "a token-type tag (currently one variant: bearer) plus the raw credential string";
  the scheme prefix is \<^verbatim>\<open>Bearer\<close> followed by one space, and the source builds
  it as \<^verbatim>\<open>auth.BearerTokenType+" "\<close>.
\<close>

record AccessToken =
  Token :: string
  TokenType :: string

definition BearerTokenType :: string where
  "BearerTokenType = ''Bearer''"

text \<open>
  The request context. Go's context is a chain of key/value pairs whose keys are
  private to the package that stores them; the three values this package reads or
  writes are the logger (\<^verbatim>\<open>hlog\<close>), the request identifier (\<^verbatim>\<open>hlog\<close>) and
  the access token (\<^verbatim>\<open>auth\<close>). A slot is \<open>None\<close> when the key was never set.
\<close>

record Context =
  ctx_logger :: "Logger option"
  ctx_id :: "ID option"
  ctx_access_token :: "AccessToken option"

record URL =
  url_Path :: string
  url_RawPath :: string
  url_RawQuery :: string

text \<open>An \<^verbatim>\<open>http.Request\<close>: \<open>Header\<close> is Go's
  \<^verbatim>\<open>map[string][]string\<close>, \<open>ctx\<close> is what \<^verbatim>\<open>r.Context()\<close> returns.\<close>

record Request =
  Method :: string
  URL :: URL
  Header :: "string \<rightharpoonup> string list"
  ctx :: Context

text \<open>What has been written to the response body: raw bytes, or the JSON encoding
  of an error (its shape belongs to package \<^verbatim>\<open>errs\<close>).\<close>

datatype chunk = Bytes string | ErrorJSON error

text \<open>
  Everything a handler can change: the response writer (its header map, whether the
  status line has been written, the status code and the body written so far, as
  \<^verbatim>\<open>httptest.ResponseRecorder\<close> records them) and the log output (which logger
  logged which error).
\<close>

record World =
  w_Header :: "string \<rightharpoonup> string list"
  w_wroteHeader :: bool
  w_Code :: nat
  w_Body :: "chunk list"
  log_out :: "(Logger \<times> error) list"

text \<open>An \<^verbatim>\<open>http.Handler\<close>: \<^verbatim>\<open>ServeHTTP(w, r)\<close> returns the world after
  the call.\<close>

type_synonym Handler = "World \<Rightarrow> Request \<Rightarrow> World"

text \<open>\<^verbatim>\<open>httptest.NewRecorder()\<close>: nothing written, status 200 by default.\<close>

definition NewRecorder :: World where
  "NewRecorder = \<lparr>w_Header = Map.empty, w_wroteHeader = False, w_Code = 200,
     w_Body = [], log_out = []\<rparr>"

text \<open>\<^verbatim>\<open>w.WriteHeader(code)\<close>: the first call fixes the status, later calls are
  ignored.\<close>

definition WriteHeader :: "nat \<Rightarrow> World \<Rightarrow> World" where
  "WriteHeader code w =
     (if w_wroteHeader w then w else w\<lparr>w_wroteHeader := True, w_Code := code\<rparr>)"

text \<open>\<^verbatim>\<open>w.Write(b)\<close>: writes the status 200 first when none was written.\<close>

definition Write :: "chunk \<Rightarrow> World \<Rightarrow> World" where
  "Write b w = (let w' = WriteHeader 200 w in w'\<lparr>w_Body := w_Body w' @ [b]\<rparr>)"

text \<open>\<^verbatim>\<open>Header.Add(key, value)\<close>: appends to the values of the key. The keys this
  package adds are already in canonical form.\<close>

definition Header_Add :: "string \<Rightarrow> string \<Rightarrow> (string \<rightharpoonup> string list) \<Rightarrow> (string \<rightharpoonup> string list)" where
  "Header_Add key v h = h(key \<mapsto> (case h key of None \<Rightarrow> [] | Some vs \<Rightarrow> vs) @ [v])"

text \<open>\<^verbatim>\<open>strings.TrimPrefix(s, prefix)\<close>: \<open>s\<close> without the leading \<open>prefix\<close>, or
  \<open>s\<close> itself when it does not start with it.\<close>

definition TrimPrefix :: "string \<Rightarrow> string \<Rightarrow> string" where
  "TrimPrefix s p = (if prefix p s then drop (length p) s else s)"

text \<open>\<^verbatim>\<open>hlog.FromRequest(r)\<close>: the logger of the request's context, a disabled
  logger when there is none.\<close>

definition FromRequest :: "Request \<Rightarrow> Logger" where
  "FromRequest r = (case ctx_logger (ctx r) of None \<Rightarrow> Disabled | Some l \<Rightarrow> l)"

text \<open>\<^verbatim>\<open>hlog.IDFromRequest(r)\<close>: Go's \<^verbatim>\<open>(id, ok)\<close> as an option.\<close>

definition IDFromRequest :: "Request \<Rightarrow> ID option" where
  "IDFromRequest r = ctx_id (ctx r)"

text \<open>
  Modelled from the spec: \<^verbatim>\<open>auth.SetAccessToken2Context\<close> (package
  \<^verbatim>\<open>auth\<close> is not among the sources) stores "the remaining token string (plus
  scheme tag) in the request context".
\<close>

definition SetAccessToken2Context :: "Context \<Rightarrow> string \<Rightarrow> string \<Rightarrow> Context" where
  "SetAccessToken2Context c token tokenType =
     c\<lparr>ctx_access_token := Some \<lparr>Token = token, TokenType = tokenType\<rparr>\<rparr>"

text \<open>
  Modelled from the spec: the status of each kind, section 4.7 (package \<^verbatim>\<open>errs\<close>
  is not among the sources): "unauthenticated 401, unauthorized 403, invalid-request
  400, not-found 404, conflict 409, internal/unclassified 500".
\<close>

fun httpStatus :: "Kind \<Rightarrow> nat" where
  "httpStatus Unauthenticated = 401"
| "httpStatus Unauthorized = 403"
| "httpStatus InvalidRequest = 400"
| "httpStatus NotFound = 404"
| "httpStatus Conflict = 409"
| "httpStatus Internal = 500"

text \<open>A logger writes an entry unless it is disabled.\<close>

definition log_error :: "Logger \<Rightarrow> error \<Rightarrow> World \<Rightarrow> World" where
  "log_error lgr e w = (if lgr = Disabled then w else w\<lparr>log_out := log_out w @ [(lgr, e)]\<rparr>)"

text \<open>
  Modelled from the spec: \<^verbatim>\<open>errs.HTTPErrorResponse(w, logger, err)\<close> (package
  \<^verbatim>\<open>errs\<close> is not among the sources), sections 4.7 and 7: the failure is logged
  through the per-request logger before the response is written; the status is the one
  of the error's kind; for the kinds unauthenticated and unauthorized the body is empty
  by design, for every other kind a JSON error body follows. An error that is not a
  classified one is unclassified: status 500.
\<close>

definition HTTPErrorResponse :: "World \<Rightarrow> Logger \<Rightarrow> error \<Rightarrow> World" where
  "HTTPErrorResponse w lgr err =
     (let w1 = log_error lgr err w in
      case err of
        Error k c \<Rightarrow>
          if k = Unauthenticated \<or> k = Unauthorized then WriteHeader (httpStatus k) w1
          else Write (ErrorJSON err) (WriteHeader (httpStatus k) w1)
      | _ \<Rightarrow> Write (ErrorJSON err) (WriteHeader (httpStatus Internal) w1))"

subsection \<open>The middleware\<close>

text \<open>\<^verbatim>\<open>JSONContentTypeHandler\<close>, handler.go lines 61 to 67.\<close>

definition JSONContentTypeHandler :: "Handler \<Rightarrow> Handler" where
  "JSONContentTypeHandler h =
     (\<lambda>w r. h (w\<lparr>w_Header := Header_Add ''Content-Type'' ''application/json'' (w_Header w)\<rparr>) r)"

text \<open>The local variable \<^verbatim>\<open>token\<close> of \<^verbatim>\<open>AccessTokenHandler\<close> when line 92
  tests it (lines 76 and 85 to 89).\<close>

definition header_token :: "Request \<Rightarrow> string" where
  "header_token r =
     (case Header r ''Authorization'' of
        None \<Rightarrow> ''''
      | Some headerValue \<Rightarrow>
          if length headerValue \<ge> 1
          then TrimPrefix (headerValue ! 0) (BearerTokenType @ '' '')
          else '''')"

text \<open>\<^verbatim>\<open>AccessTokenHandler\<close>, handler.go lines 72 to 112.\<close>

definition AccessTokenHandler :: "Handler \<Rightarrow> Handler" where
  "AccessTokenHandler h =
     (\<lambda>w r.
        let logger = FromRequest r;
            ctx0 = ctx r;
            token = header_token r
        in if token = ''''
           then HTTPErrorResponse w logger
                  (E [KindArg Unauthenticated, ErrArg (New ''Unauthenticated - empty Bearer token'')])
           else h w (r\<lparr>ctx := SetAccessToken2Context ctx0 token BearerTokenType\<rparr>))"

subsection \<open>The response envelope\<close>

record 'd StandardResponse =
  Path :: string
  RequestID :: string
  Data :: 'd

text \<open>
  \<^verbatim>\<open>NewStandardResponse\<close>, handler.go lines 123 to 136. Go's
  \<^verbatim>\<open>(*StandardResponse, error)\<close> is a sum: \<open>Inl\<close> the error (with a nil
  envelope), \<open>Inr\<close> the envelope (with a nil error). \<^verbatim>\<open>URL.EscapedPath\<close> belongs
  to Go's standard library and is a parameter.
\<close>

definition NewStandardResponse ::
  "(URL \<Rightarrow> string) \<Rightarrow> Request \<Rightarrow> 'd \<Rightarrow> error + 'd StandardResponse" where
  "NewStandardResponse EscapedPath r d =
     (case IDFromRequest r of
        None \<Rightarrow> Inl (E [ErrArg (New ''request ID not properly set to request context'')])
      | Some i \<Rightarrow> Inr \<lparr>Path = EscapedPath (URL r), RequestID = ID_String i, Data = d\<rparr>)"

subsection \<open>The decode-error classifier\<close>

text \<open>\<^verbatim>\<open>DecoderErr\<close>, handler.go lines 140 to 155: the cases of the switch in
  their order.\<close>

definition DecoderErr :: "error option \<Rightarrow> error option" where
  "DecoderErr err =
     (if err = Some EOF
      then Some (E [KindArg InvalidRequest, ErrArg (New ''Request Body cannot be empty'')])
      else if err = Some ErrUnexpectedEOF
      then Some (E [KindArg InvalidRequest, ErrArg (New ''Malformed JSON'')])
      else if err \<noteq> None
      then Some (E [ErrArg (the err)])
      else None)"

subsection \<open>Sample requests and handlers\<close>

text \<open>\<^verbatim>\<open>context.Background()\<close>: no value is set.\<close>

definition Background :: Context where
  "Background = \<lparr>ctx_logger = None, ctx_id = None, ctx_access_token = None\<rparr>"

text \<open>The request of the package's tests, \<^verbatim>\<open>httptest.NewRequest(http.MethodPost,
  path, body)\<close>, with the given header map and context.\<close>

definition NewRequest :: "(string \<rightharpoonup> string list) \<Rightarrow> Context \<Rightarrow> Request" where
  "NewRequest hdr c =
     \<lparr>Method = ''POST'',
      URL = \<lparr>url_Path = ''/api/v1/movies'', url_RawPath = '''', url_RawQuery = ''''\<rparr>,
      Header = hdr, ctx = c\<rparr>"

text \<open>A terminal handler that writes the token type and the token it finds in the
  request's context to the body.\<close>

definition echo_token :: Handler where
  "echo_token w r =
     (case ctx_access_token (ctx r) of
        None \<Rightarrow> Write (Bytes ''no token'') w
      | Some t \<Rightarrow> Write (Bytes (Token t)) (Write (Bytes (TokenType t)) w))"

text \<open>The same handler, except that it answers differently when the context holds no
  token, an empty token or a token of another type.\<close>

definition echo_bearer_only :: Handler where
  "echo_bearer_only w r =
     (case ctx_access_token (ctx r) of
        None \<Rightarrow> Write (Bytes ''unexpected'') w
      | Some t \<Rightarrow>
          if Token t \<noteq> '''' \<and> TokenType t = BearerTokenType
          then Write (Bytes (Token t)) (Write (Bytes (TokenType t)) w)
          else Write (Bytes ''unexpected'') w)"

text \<open>A terminal handler that returns the world as it received it.\<close>

definition done_handler :: Handler where
  "done_handler w r = w"

section \<open>Properties\<close>

subsection \<open>Auxiliary facts\<close>

lemma E_kind_err: "E [KindArg k, ErrArg e] = Error k (Some e)"
  by (simp add: E_def)

lemma E_err: "E [ErrArg e] = Error Internal (Some e)"
  by (simp add: E_def)

lemma TrimPrefix_append: "TrimPrefix (p @ t) p = t"
  by (simp add: TrimPrefix_def)

lemma TrimPrefix_no_prefix: "\<not> prefix p s \<Longrightarrow> TrimPrefix s p = s"
  by (simp add: TrimPrefix_def)

lemma TrimPrefix_empty_iff: "TrimPrefix s p = [] \<longleftrightarrow> s = [] \<or> s = p"
proof
  assume a: "TrimPrefix s p = []"
  show "s = [] \<or> s = p"
  proof (cases "prefix p s")
    case True
    then obtain t where s: "s = p @ t" by (auto simp: prefix_def)
    with a have "t = []" by (simp add: TrimPrefix_append)
    with s show ?thesis by simp
  next
    case False
    with a show ?thesis by (simp add: TrimPrefix_no_prefix)
  qed
next
  assume "s = [] \<or> s = p"
  then show "TrimPrefix s p = []" by (auto simp: TrimPrefix_def)
qed

lemma header_token_first:
  "Header r ''Authorization'' = Some (v # vs) \<Longrightarrow> header_token r = TrimPrefix v ''Bearer ''"
  by (simp add: header_token_def BearerTokenType_def)

lemma header_token_absent:
  "Header r ''Authorization'' = None \<or> Header r ''Authorization'' = Some [] \<Longrightarrow> header_token r = []"
  by (auto simp: header_token_def)

lemma AccessTokenHandler_fail:
  "header_token r = [] \<Longrightarrow>
   AccessTokenHandler h w r =
     HTTPErrorResponse w (FromRequest r)
       (Error Unauthenticated (Some (New ''Unauthenticated - empty Bearer token'')))"
  by (simp add: AccessTokenHandler_def E_kind_err)

lemma AccessTokenHandler_pass:
  "header_token r \<noteq> [] \<Longrightarrow>
   AccessTokenHandler h w r =
     h w (r\<lparr>ctx := (ctx r)\<lparr>ctx_access_token :=
            Some \<lparr>Token = header_token r, TokenType = BearerTokenType\<rparr>\<rparr>\<rparr>)"
  by (simp add: AccessTokenHandler_def SetAccessToken2Context_def)

lemma HTTPErrorResponse_unauthenticated:
  "\<not> w_wroteHeader w \<Longrightarrow>
   HTTPErrorResponse w lgr (Error Unauthenticated c) =
     (log_error lgr (Error Unauthenticated c) w)\<lparr>w_wroteHeader := True, w_Code := 401\<rparr>"
  by (simp add: HTTPErrorResponse_def WriteHeader_def log_error_def)

subsection \<open>The access token gate\<close>

text \<open>
  C1. A request whose \<^verbatim>\<open>Authorization\<close> header is missing (or present with
  no value), or whose first value is empty after the prefix \<^verbatim>\<open>Bearer \<close> is
  stripped, is answered with status 401; nothing is written to the body, so the body
  of a response that had not been started is empty; and the result is the same for
  every downstream handler, that is, the downstream handler is not invoked.
\<close>

theorem AccessTokenHandler_unauthenticated:
  assumes "Header r ''Authorization'' = None \<or> Header r ''Authorization'' = Some [] \<or>
           (\<exists>v vs. Header r ''Authorization'' = Some (v # vs) \<and> TrimPrefix v ''Bearer '' = '''')"
      and "\<not> w_wroteHeader w"
  shows "w_Code (AccessTokenHandler h w r) = 401 \<and>
         w_Body (AccessTokenHandler h w r) = w_Body w \<and>
         AccessTokenHandler h w r = AccessTokenHandler h' w r"
proof -
  from assms(1) have tok: "header_token r = []"
    using header_token_first header_token_absent by metis
  have eq: "AccessTokenHandler h w r =
      (log_error (FromRequest r)
         (Error Unauthenticated (Some (New ''Unauthenticated - empty Bearer token''))) w)
       \<lparr>w_wroteHeader := True, w_Code := 401\<rparr>" for h
    using tok assms(2) by (simp add: AccessTokenHandler_fail HTTPErrorResponse_unauthenticated)
  have "w_Code (AccessTokenHandler h w r) = 401"
    by (simp add: eq)
  moreover have "w_Body (AccessTokenHandler h w r) = w_Body w"
    by (simp add: eq log_error_def)
  moreover have "AccessTokenHandler h w r = AccessTokenHandler h' w r"
    by (simp add: eq)
  ultimately show ?thesis by simp
qed

theorem AccessTokenHandler_unauthenticated_witness:
  "w_Code (AccessTokenHandler echo_token NewRecorder
             (NewRequest [''Authorization'' \<mapsto> [''Bearer '']] Background)) = 401 \<and>
   w_Body (AccessTokenHandler echo_token NewRecorder
             (NewRequest [''Authorization'' \<mapsto> [''Bearer '']] Background)) = [] \<and>
   AccessTokenHandler echo_token NewRecorder
             (NewRequest [''Authorization'' \<mapsto> [''Bearer '']] Background) =
   AccessTokenHandler done_handler NewRecorder
             (NewRequest [''Authorization'' \<mapsto> [''Bearer '']] Background)"
proof -
  have h1: "Header (NewRequest [''Authorization'' \<mapsto> [''Bearer '']] Background) ''Authorization'' = None \<or>
      Header (NewRequest [''Authorization'' \<mapsto> [''Bearer '']] Background) ''Authorization'' = Some [] \<or>
      (\<exists>v vs. Header (NewRequest [''Authorization'' \<mapsto> [''Bearer '']] Background) ''Authorization'' = Some (v # vs)
         \<and> TrimPrefix v ''Bearer '' = '''')"
    by (simp add: NewRequest_def TrimPrefix_def)
  have h2: "\<not> w_wroteHeader NewRecorder"
    by (simp add: NewRecorder_def)
  have b: "w_Body NewRecorder = []"
    by (simp add: NewRecorder_def)
  note r = AccessTokenHandler_unauthenticated [OF h1 h2, of echo_token done_handler]
  from r [unfolded b] show ?thesis .
qed

text \<open>
  C2, as amended. There is no validation of the scheme: when the first
  \<^verbatim>\<open>Authorization\<close> value is not empty and does not start with
  \<^verbatim>\<open>Bearer \<close>, the whole value is stored as the access token, tagged with the
  bearer type, and the downstream handler is invoked with that context.
\<close>

theorem AccessTokenHandler_other_scheme:
  assumes "Header r ''Authorization'' = Some (v # vs)"
      and "v \<noteq> ''''"
      and "\<not> prefix ''Bearer '' v"
  shows "AccessTokenHandler h w r =
           h w (r\<lparr>ctx := (ctx r)\<lparr>ctx_access_token :=
                  Some \<lparr>Token = v, TokenType = ''Bearer''\<rparr>\<rparr>\<rparr>)"
proof -
  from assms have "header_token r = v"
    by (simp add: header_token_first TrimPrefix_no_prefix)
  with assms(2) show ?thesis
    by (simp add: AccessTokenHandler_pass BearerTokenType_def)
qed

theorem AccessTokenHandler_other_scheme_witness:
  "AccessTokenHandler echo_token NewRecorder
      (NewRequest [''Authorization'' \<mapsto> [''Basic xyz'']] Background) =
   echo_token NewRecorder
      ((NewRequest [''Authorization'' \<mapsto> [''Basic xyz'']] Background)
         \<lparr>ctx := (ctx (NewRequest [''Authorization'' \<mapsto> [''Basic xyz'']] Background))
            \<lparr>ctx_access_token := Some \<lparr>Token = ''Basic xyz'', TokenType = ''Bearer''\<rparr>\<rparr>\<rparr>)"
proof (rule AccessTokenHandler_other_scheme)
  show "Header (NewRequest [''Authorization'' \<mapsto> [''Basic xyz'']] Background) ''Authorization''
          = Some (''Basic xyz'' # [])"
    by (simp add: NewRequest_def)
  show "''Basic xyz'' \<noteq> ''''" by simp
  show "\<not> prefix ''Bearer '' ''Basic xyz''" by simp
qed

text \<open>
  C2, as stated, fails: for the header value \<^verbatim>\<open>Basic xyz\<close> the downstream
  handler runs (the status is its 200 and the body is what it wrote) and the context it
  receives holds the token \<^verbatim>\<open>Basic xyz\<close> tagged \<^verbatim>\<open>Bearer\<close>.
\<close>

theorem AccessTokenHandler_basic_scheme_counterexample:
  "w_Code (AccessTokenHandler echo_token NewRecorder
             (NewRequest [''Authorization'' \<mapsto> [''Basic xyz'']] Background)) = 200 \<and>
   w_Body (AccessTokenHandler echo_token NewRecorder
             (NewRequest [''Authorization'' \<mapsto> [''Basic xyz'']] Background))
     = [Bytes ''Bearer'', Bytes ''Basic xyz'']"
  by (simp add: AccessTokenHandler_def header_token_def TrimPrefix_def BearerTokenType_def
      NewRequest_def NewRecorder_def Background_def SetAccessToken2Context_def echo_token_def
      Write_def WriteHeader_def)

text \<open>
  C4. When the first \<^verbatim>\<open>Authorization\<close> value passes the gate, the downstream
  handler receives a context whose access token is that value with the prefix
  \<^verbatim>\<open>Bearer \<close> removed by one \<^verbatim>\<open>TrimPrefix\<close>: for a value
  \<^verbatim>\<open>Bearer \<close> followed by \<open>t\<close> the token is \<open>t\<close>, whatever \<open>t\<close> starts with
  (nothing is stripped twice), and a value that does not start with the prefix is
  stored unchanged (an occurrence elsewhere in the value is not stripped).
\<close>

theorem AccessTokenHandler_stored_token:
  assumes "Header r ''Authorization'' = Some (v # vs)"
      and "TrimPrefix v ''Bearer '' \<noteq> ''''"
  shows "AccessTokenHandler h w r =
           h w (r\<lparr>ctx := (ctx r)\<lparr>ctx_access_token :=
                  Some \<lparr>Token = TrimPrefix v ''Bearer '', TokenType = BearerTokenType\<rparr>\<rparr>\<rparr>) \<and>
         (\<forall>t. v = ''Bearer '' @ t \<longrightarrow> TrimPrefix v ''Bearer '' = t) \<and>
         (\<not> prefix ''Bearer '' v \<longrightarrow> TrimPrefix v ''Bearer '' = v)"
proof -
  from assms have "header_token r = TrimPrefix v ''Bearer ''" "header_token r \<noteq> []"
    by (simp_all add: header_token_first)
  then have "AccessTokenHandler h w r =
           h w (r\<lparr>ctx := (ctx r)\<lparr>ctx_access_token :=
                  Some \<lparr>Token = TrimPrefix v ''Bearer '', TokenType = BearerTokenType\<rparr>\<rparr>\<rparr>)"
    by (simp add: AccessTokenHandler_pass)
  moreover have "\<forall>t. v = ''Bearer '' @ t \<longrightarrow> TrimPrefix v ''Bearer '' = t"
    using TrimPrefix_append by blast
  moreover have "\<not> prefix ''Bearer '' v \<longrightarrow> TrimPrefix v ''Bearer '' = v"
    by (simp add: TrimPrefix_no_prefix)
  ultimately show ?thesis by blast
qed

theorem AccessTokenHandler_stored_token_witness:
  "w_Body (AccessTokenHandler echo_token NewRecorder
             (NewRequest [''Authorization'' \<mapsto> [''Bearer Bearer abc123def1'']] Background))
     = [Bytes ''Bearer'', Bytes ''Bearer abc123def1'']"
proof -
  have h1: "Header (NewRequest [''Authorization'' \<mapsto> [''Bearer Bearer abc123def1'']] Background)
              ''Authorization'' = Some (''Bearer Bearer abc123def1'' # [])"
    by (simp add: NewRequest_def)
  have t: "TrimPrefix ''Bearer Bearer abc123def1'' ''Bearer '' = ''Bearer abc123def1''"
    by (simp add: TrimPrefix_def)
  have h2: "TrimPrefix ''Bearer Bearer abc123def1'' ''Bearer '' \<noteq> ''''"
    by (simp add: t)
  from AccessTokenHandler_stored_token [OF h1 h2, of echo_token NewRecorder]
  have "AccessTokenHandler echo_token NewRecorder
          (NewRequest [''Authorization'' \<mapsto> [''Bearer Bearer abc123def1'']] Background) =
        echo_token NewRecorder
          ((NewRequest [''Authorization'' \<mapsto> [''Bearer Bearer abc123def1'']] Background)
             \<lparr>ctx := (ctx (NewRequest [''Authorization'' \<mapsto> [''Bearer Bearer abc123def1'']] Background))
                \<lparr>ctx_access_token :=
                   Some \<lparr>Token = ''Bearer abc123def1'', TokenType = BearerTokenType\<rparr>\<rparr>\<rparr>)"
    by (simp only: t)
  then show ?thesis
    by (simp add: echo_token_def Write_def WriteHeader_def NewRecorder_def BearerTokenType_def)
qed

text \<open>
  C9. The downstream handler is only ever applied to a request whose context holds a
  non-empty access token tagged with the bearer type: the middleware either answers
  with the error response or applies the handler to such a request, so two handlers
  that agree on all such requests cannot be told apart through the middleware.
\<close>

theorem AccessTokenHandler_downstream_invariant:
  assumes "\<And>w' r'. (\<exists>t. ctx_access_token (ctx r') = Some t \<and> Token t \<noteq> '''' \<and>
                        TokenType t = BearerTokenType) \<Longrightarrow> h w' r' = h' w' r'"
  shows "AccessTokenHandler h w r = AccessTokenHandler h' w r \<and>
         (AccessTokenHandler h w r =
            HTTPErrorResponse w (FromRequest r)
              (Error Unauthenticated (Some (New ''Unauthenticated - empty Bearer token''))) \<or>
          (\<exists>r' t. AccessTokenHandler h w r = h w r' \<and> ctx_access_token (ctx r') = Some t \<and>
                  Token t \<noteq> '''' \<and> TokenType t = BearerTokenType))"
proof (cases "header_token r = []")
  case True
  then show ?thesis by (simp add: AccessTokenHandler_fail)
next
  case False
  let ?r' = "r\<lparr>ctx := (ctx r)\<lparr>ctx_access_token :=
            Some \<lparr>Token = header_token r, TokenType = BearerTokenType\<rparr>\<rparr>\<rparr>"
  have tok: "\<exists>t. ctx_access_token (ctx ?r') = Some t \<and> Token t \<noteq> '''' \<and>
               TokenType t = BearerTokenType"
    using False by simp
  have "h w ?r' = h' w ?r'"
    by (rule assms) (rule tok)
  with False have "AccessTokenHandler h w r = AccessTokenHandler h' w r"
    by (simp add: AccessTokenHandler_pass)
  moreover from False have "AccessTokenHandler h w r = h w ?r'"
    by (simp add: AccessTokenHandler_pass)
  ultimately show ?thesis using tok by blast
qed

theorem AccessTokenHandler_downstream_invariant_witness:
  "AccessTokenHandler echo_token NewRecorder
      (NewRequest [''Authorization'' \<mapsto> [''Bearer abc123def1'']] Background) =
   AccessTokenHandler echo_bearer_only NewRecorder
      (NewRequest [''Authorization'' \<mapsto> [''Bearer abc123def1'']] Background)"
proof -
  have agree: "echo_token w' r' = echo_bearer_only w' r'"
    if "\<exists>t. ctx_access_token (ctx r') = Some t \<and> Token t \<noteq> '''' \<and>
            TokenType t = BearerTokenType" for w' r'
    using that by (auto simp: echo_token_def echo_bearer_only_def)
  from AccessTokenHandler_downstream_invariant [of echo_token echo_bearer_only, OF agree]
  show ?thesis by (rule conjunct1)
qed

text \<open>
  C10. Only the first value of the \<^verbatim>\<open>Authorization\<close> header is consulted: the
  token is computed from the first value alone, and two requests that differ only in
  the values after the first get the same answer, whether that is the error response
  or the call of a downstream handler that reads the request's context.
\<close>

theorem AccessTokenHandler_first_value_only:
  "header_token (r\<lparr>Header := (Header r)(''Authorization'' \<mapsto> v # vs)\<rparr>) = TrimPrefix v ''Bearer '' \<and>
   AccessTokenHandler (\<lambda>w' r'. g w' (ctx r')) w
      (r\<lparr>Header := (Header r)(''Authorization'' \<mapsto> v # vs)\<rparr>) =
   AccessTokenHandler (\<lambda>w' r'. g w' (ctx r')) w
      (r\<lparr>Header := (Header r)(''Authorization'' \<mapsto> v # vs')\<rparr>)"
proof -
  have tok: "header_token (r\<lparr>Header := (Header r)(''Authorization'' \<mapsto> v # us)\<rparr>)
               = TrimPrefix v ''Bearer ''" for us
    by (simp add: header_token_first)
  have "AccessTokenHandler (\<lambda>w' r'. g w' (ctx r')) w
          (r\<lparr>Header := (Header r)(''Authorization'' \<mapsto> v # us)\<rparr>) =
        (if TrimPrefix v ''Bearer '' = []
         then HTTPErrorResponse w (FromRequest r)
                (Error Unauthenticated (Some (New ''Unauthenticated - empty Bearer token'')))
         else g w ((ctx r)\<lparr>ctx_access_token :=
                Some \<lparr>Token = TrimPrefix v ''Bearer '', TokenType = BearerTokenType\<rparr>\<rparr>))" for us
    using tok [of us]
    by (simp add: AccessTokenHandler_fail AccessTokenHandler_pass FromRequest_def)
  with tok show ?thesis by simp
qed

subsection \<open>The content type\<close>

text \<open>
  C7. \<^verbatim>\<open>JSONContentTypeHandler\<close> calls the next handler with the request it
  received and with a writer in which \<^verbatim>\<open>application/json\<close> has been appended
  to the values of \<^verbatim>\<open>Content-Type\<close>; every other header, the status, the body
  and the log are as they were. It has no error branch and keeps no state: the writer
  handed on is a function of the writer received.
\<close>

theorem JSONContentTypeHandler_frame:
  "JSONContentTypeHandler h w r = h (JSONContentTypeHandler done_handler w r) r \<and>
   w_Header (JSONContentTypeHandler done_handler w r) ''Content-Type'' =
     Some ((case w_Header w ''Content-Type'' of None \<Rightarrow> [] | Some vs \<Rightarrow> vs) @ [''application/json'']) \<and>
   (k \<noteq> ''Content-Type'' \<longrightarrow> w_Header (JSONContentTypeHandler done_handler w r) k = w_Header w k) \<and>
   w_wroteHeader (JSONContentTypeHandler done_handler w r) = w_wroteHeader w \<and>
   w_Code (JSONContentTypeHandler done_handler w r) = w_Code w \<and>
   w_Body (JSONContentTypeHandler done_handler w r) = w_Body w \<and>
   log_out (JSONContentTypeHandler done_handler w r) = log_out w"
proof -
  let ?w' = "w\<lparr>w_Header := Header_Add ''Content-Type'' ''application/json'' (w_Header w)\<rparr>"
  have call: "JSONContentTypeHandler h' w r = h' ?w' r" for h'
    by (simp add: JSONContentTypeHandler_def)
  have own: "JSONContentTypeHandler done_handler w r = ?w'"
    by (simp add: call done_handler_def)
  have "JSONContentTypeHandler h w r = h (JSONContentTypeHandler done_handler w r) r"
    by (simp add: call done_handler_def)
  moreover have "w_Header ?w' ''Content-Type'' =
      Some ((case w_Header w ''Content-Type'' of None \<Rightarrow> [] | Some vs \<Rightarrow> vs) @ [''application/json''])"
    by (simp add: Header_Add_def)
  moreover have "k \<noteq> ''Content-Type'' \<longrightarrow> w_Header ?w' k = w_Header w k"
    by (simp add: Header_Add_def)
  moreover have "w_wroteHeader ?w' = w_wroteHeader w" "w_Code ?w' = w_Code w"
    "w_Body ?w' = w_Body w" "log_out ?w' = log_out w"
    by simp_all
  ultimately show ?thesis
    by (simp only: own)
qed

theorem JSONContentTypeHandler_frame_witness:
  "w_Header (JSONContentTypeHandler done_handler
      (NewRecorder\<lparr>w_Header := [''Request-Id'' \<mapsto> [''bpa182jipt3b2b78879g'']]\<rparr>)
      (NewRequest Map.empty Background)) ''Request-Id'' = Some [''bpa182jipt3b2b78879g'']"
proof -
  have k: "''Request-Id'' \<noteq> ''Content-Type''" by simp
  note f = JSONContentTypeHandler_frame [of done_handler
      "NewRecorder\<lparr>w_Header := [''Request-Id'' \<mapsto> [''bpa182jipt3b2b78879g'']]\<rparr>"
      "NewRequest Map.empty Background" "''Request-Id''"]
  from f have "''Request-Id'' \<noteq> ''Content-Type'' \<longrightarrow>
      w_Header (JSONContentTypeHandler done_handler
        (NewRecorder\<lparr>w_Header := [''Request-Id'' \<mapsto> [''bpa182jipt3b2b78879g'']]\<rparr>)
        (NewRequest Map.empty Background)) ''Request-Id'' =
      w_Header (NewRecorder\<lparr>w_Header := [''Request-Id'' \<mapsto> [''bpa182jipt3b2b78879g'']]\<rparr>) ''Request-Id''"
    by blast
  with k show ?thesis by simp
qed

subsection \<open>The response envelope\<close>

text \<open>
  C5. \<^verbatim>\<open>NewStandardResponse\<close> returns an error exactly when the request's
  context holds no request identifier; the error is then a classified error of the
  internal kind, and (the result being the \<open>Inl\<close> of a sum) there is no envelope.
\<close>

theorem NewStandardResponse_error_iff:
  "((\<exists>e. NewStandardResponse esc r d = Inl e) \<longleftrightarrow> IDFromRequest r = None) \<and>
   (IDFromRequest r = None \<longrightarrow>
      NewStandardResponse esc r d =
        Inl (Error Internal (Some (New ''request ID not properly set to request context''))))"
proof (cases "IDFromRequest r")
  case None
  then have "NewStandardResponse esc r d =
      Inl (Error Internal (Some (New ''request ID not properly set to request context'')))"
    by (simp add: NewStandardResponse_def E_err)
  with None show ?thesis by simp
next
  case (Some i)
  then have "NewStandardResponse esc r d =
      Inr \<lparr>Path = esc (URL r), RequestID = ID_String i, Data = d\<rparr>"
    by (simp add: NewStandardResponse_def)
  with Some show ?thesis by simp
qed

theorem NewStandardResponse_error_iff_witness:
  "NewStandardResponse url_Path (NewRequest Map.empty Background) (0::nat) =
     Inl (Error Internal (Some (New ''request ID not properly set to request context'')))"
proof -
  have n: "IDFromRequest (NewRequest Map.empty Background) = None"
    by (simp add: IDFromRequest_def NewRequest_def Background_def)
  from NewStandardResponse_error_iff [of url_Path "NewRequest Map.empty Background" "0::nat"]
  have "IDFromRequest (NewRequest Map.empty Background) = None \<longrightarrow>
      NewStandardResponse url_Path (NewRequest Map.empty Background) (0::nat) =
        Inl (Error Internal (Some (New ''request ID not properly set to request context'')))"
    by (rule conjunct2)
  then show ?thesis using n by (rule mp)
qed

text \<open>
  C6. When the request's context holds a request identifier, \<^verbatim>\<open>NewStandardResponse\<close>
  returns an envelope whose path is the escaped path of the request's URL, whose
  request identifier is the text of the context's identifier, and whose data is the
  payload it was given.
\<close>

theorem NewStandardResponse_fields:
  assumes "IDFromRequest r = Some i"
  shows "\<exists>sr. NewStandardResponse esc r d = Inr sr \<and> Path sr = esc (URL r) \<and>
              RequestID sr = ID_String i \<and> Data sr = d"
  using assms by (simp add: NewStandardResponse_def)

theorem NewStandardResponse_fields_witness:
  "\<exists>sr. NewStandardResponse url_Path
           (NewRequest Map.empty (Background\<lparr>ctx_id := Some (ID ''bpa182jipt3b2b78879g'')\<rparr>))
           ''payload'' = Inr sr \<and>
        Path sr = ''/api/v1/movies'' \<and> RequestID sr = ''bpa182jipt3b2b78879g'' \<and>
        Data sr = ''payload''"
proof -
  have i: "IDFromRequest (NewRequest Map.empty (Background\<lparr>ctx_id := Some (ID ''bpa182jipt3b2b78879g'')\<rparr>))
             = Some (ID ''bpa182jipt3b2b78879g'')"
    by (simp add: IDFromRequest_def NewRequest_def)
  have u: "url_Path (URL (NewRequest Map.empty (Background\<lparr>ctx_id := Some (ID ''bpa182jipt3b2b78879g'')\<rparr>)))
             = ''/api/v1/movies''"
    by (simp add: NewRequest_def)
  have s: "ID_String (ID ''bpa182jipt3b2b78879g'') = ''bpa182jipt3b2b78879g''"
    by simp
  note f = NewStandardResponse_fields [OF i, of url_Path "''payload''"]
  from f [unfolded u s] show ?thesis .
qed

subsection \<open>The decode-error classifier\<close>

text \<open>
  C3. \<^verbatim>\<open>DecoderErr\<close> maps nil to nil, \<^verbatim>\<open>io.EOF\<close> to an invalid-request
  error with the message "Request Body cannot be empty", \<^verbatim>\<open>io.ErrUnexpectedEOF\<close>
  to an invalid-request error with the message "Malformed JSON", and every other
  error to a classified error that wraps it as its cause and is given no kind (it
  keeps the default one).
\<close>

theorem DecoderErr_reference:
  "DecoderErr None = None \<and>
   DecoderErr (Some EOF) =
     Some (Error InvalidRequest (Some (New ''Request Body cannot be empty''))) \<and>
   map_option Error_msg (DecoderErr (Some EOF)) = Some ''Request Body cannot be empty'' \<and>
   DecoderErr (Some ErrUnexpectedEOF) =
     Some (Error InvalidRequest (Some (New ''Malformed JSON''))) \<and>
   map_option Error_msg (DecoderErr (Some ErrUnexpectedEOF)) = Some ''Malformed JSON'' \<and>
   (e \<noteq> EOF \<and> e \<noteq> ErrUnexpectedEOF \<longrightarrow>
      DecoderErr (Some e) = Some (E [ErrArg e]) \<and>
      DecoderErr (Some e) = Some (Error Internal (Some e)))"
proof -
  have nil: "DecoderErr None = None"
    by (simp add: DecoderErr_def)
  have eof: "DecoderErr (Some EOF) =
      Some (Error InvalidRequest (Some (New ''Request Body cannot be empty'')))"
    by (simp add: DecoderErr_def E_kind_err)
  have ueof: "DecoderErr (Some ErrUnexpectedEOF) =
      Some (Error InvalidRequest (Some (New ''Malformed JSON'')))"
    by (simp add: DecoderErr_def E_kind_err)
  have other: "DecoderErr (Some e) = Some (E [ErrArg e])"
    if "e \<noteq> EOF" and "e \<noteq> ErrUnexpectedEOF"
    using that by (simp add: DecoderErr_def)
  from eof have eof_msg:
    "map_option Error_msg (DecoderErr (Some EOF)) = Some ''Request Body cannot be empty''"
    by simp
  from ueof have ueof_msg:
    "map_option Error_msg (DecoderErr (Some ErrUnexpectedEOF)) = Some ''Malformed JSON''"
    by simp
  from other have wrapped: "e \<noteq> EOF \<and> e \<noteq> ErrUnexpectedEOF \<longrightarrow>
      DecoderErr (Some e) = Some (E [ErrArg e]) \<and>
      DecoderErr (Some e) = Some (Error Internal (Some e))"
    by (simp add: E_err)
  from nil eof eof_msg ueof ueof_msg wrapped show ?thesis
    by (intro conjI)
qed

theorem DecoderErr_reference_witness:
  "DecoderErr (Some (New ''invalid character'')) =
     Some (Error Internal (Some (New ''invalid character'')))"
proof -
  have d: "New ''invalid character'' \<noteq> EOF \<and> New ''invalid character'' \<noteq> ErrUnexpectedEOF"
    by simp
  from DecoderErr_reference [of "New ''invalid character''"]
  have "New ''invalid character'' \<noteq> EOF \<and> New ''invalid character'' \<noteq> ErrUnexpectedEOF \<longrightarrow>
      DecoderErr (Some (New ''invalid character'')) = Some (E [ErrArg (New ''invalid character'')]) \<and>
      DecoderErr (Some (New ''invalid character'')) =
        Some (Error Internal (Some (New ''invalid character'')))"
    by blast
  with d show ?thesis by blast
qed

end
